theory Spec2Isabelle
  imports Complex_Main "HOL-Library.Char_ord" "HOL-Library.List_Lexorder"
begin

section \<open>The runtime: numbers, strings and dates\<close>

text \<open>
  \<^verbatim>\<open>App.js\<close> runs on a JavaScript engine.  A number is a real (one that is a double)
  or \<open>NaN\<close>, the value every failed conversion yields.  The engine rounds the result
  of every addition and subtraction to a double; that rounding is the parameter \<open>fl\<close>
  of the model, so that \<^verbatim>\<open>a + b\<close> is \<open>fl (a + b)\<close>.  Negation, the absolute value and
  the maximum of two doubles are exact.  The infinities and the negative zero of IEEE
  doubles are left out.  Strings are lists of code units in the Latin-1 range.
\<close>

datatype jsnum = NaN | Num real

text \<open>
  The engine's arithmetic and its text-to-number conversions are not code of the
  application, so the application's functions take them as a parameter.
\<close>

record js_runtime =
  fl :: "real \<Rightarrow> real"
  Number :: "string \<Rightarrow> jsnum"
  parseFloat :: "string \<Rightarrow> jsnum"
  parseInt :: "string \<Rightarrow> int option"  \<comment> \<open>\<open>None\<close> for \<open>NaN\<close>; any other result is integral\<close>

definition truthy :: "jsnum \<Rightarrow> bool" where
  "truthy v = (case v of NaN \<Rightarrow> False | Num x \<Rightarrow> x \<noteq> 0)"

definition or_zero :: "jsnum \<Rightarrow> real" where
  \<comment> \<open>\<^verbatim>\<open>v || 0\<close> on a number\<close>
  "or_zero v = (case v of NaN \<Rightarrow> 0 | Num x \<Rightarrow> if x \<noteq> 0 then x else 0)"

definition Math_abs :: "jsnum \<Rightarrow> jsnum" where
  "Math_abs v = (case v of NaN \<Rightarrow> NaN | Num x \<Rightarrow> Num \<bar>x\<bar>)"

definition neg :: "jsnum \<Rightarrow> jsnum" where
  "neg v = (case v of NaN \<Rightarrow> NaN | Num x \<Rightarrow> Num (- x))"

definition le_zero :: "jsnum \<Rightarrow> bool" where
  \<comment> \<open>\<^verbatim>\<open>v <= 0\<close>: every comparison with \<open>NaN\<close> is false\<close>
  "le_zero v = (case v of NaN \<Rightarrow> False | Num x \<Rightarrow> x \<le> 0)"

subsection \<open>Strings\<close>

definition is_space :: "char \<Rightarrow> bool" where
  \<comment> \<open>white space and line terminators below U+0100\<close>
  "is_space c = (c \<in> set [CHR 0x09, CHR 0x0A, CHR 0x0B, CHR 0x0C, CHR 0x0D, CHR 0x20, CHR 0xA0])"

definition trim :: "string \<Rightarrow> string" where
  "trim s = rev (dropWhile is_space (rev (dropWhile is_space s)))"

fun replace_first :: "char \<Rightarrow> char \<Rightarrow> string \<Rightarrow> string" where
  \<comment> \<open>\<^verbatim>\<open>s.replace(a, b)\<close> with one-character strings: the first occurrence only\<close>
  "replace_first a b [] = []"
| "replace_first a b (c # cs) = (if c = a then b # cs else c # replace_first a b cs)"

definition padStart :: "nat \<Rightarrow> char \<Rightarrow> string \<Rightarrow> string" where
  "padStart n c s = replicate (n - length s) c @ s"

definition digit_char :: "nat \<Rightarrow> char" where
  "digit_char n = ''0123456789'' ! n"

fun digits :: "nat \<Rightarrow> string" where
  "digits n = (if n < 10 then [digit_char n] else digits (n div 10) @ [digit_char (n mod 10)])"

declare digits.simps [simp del]

definition String_int :: "int \<Rightarrow> string" where
  \<comment> \<open>\<^verbatim>\<open>String(n)\<close> for an integral number\<close>
  "String_int i = (if i < 0 then CHR ''-'' # digits (nat (- i)) else digits (nat i))"

subsection \<open>Dates\<close>

text \<open>
  A \<^verbatim>\<open>Date\<close> is a time value, the milliseconds since the epoch in UTC.  The device's
  time zone is the parameter \<open>tz\<close>, the minutes \<^verbatim>\<open>getTimezoneOffset()\<close> returns
  (UTC minus local time: 180 in Sao Paulo, -60 in Luanda), taken as constant
  over the month.  Days are counted in the proleptic Gregorian calendar.
\<close>

type_synonym Date = int

definition msPerDay :: int where
  "msPerDay = 86400000"

definition days_from_civil :: "int \<Rightarrow> int \<Rightarrow> int \<Rightarrow> int" where
  \<comment> \<open>day number of year \<open>y\<close>, month \<open>m\<close> (1 to 12), day \<open>d\<close>; day 0 is 1970-01-01.
      Years are taken from March, so that the leap day comes last.\<close>
  "days_from_civil y m d =
     (if m \<le> 2
      then ((y - 1) div 400) * 146097 + ((y - 1) mod 400) * 365 + ((y - 1) mod 400) div 4
             - ((y - 1) mod 400) div 100 + (153 * (m + 9) + 2) div 5 + d - 1 - 719468
      else (y div 400) * 146097 + (y mod 400) * 365 + (y mod 400) div 4
             - (y mod 400) div 100 + (153 * (m - 3) + 2) div 5 + d - 1 - 719468)"

definition year_of_era :: "int \<Rightarrow> int" where
  \<comment> \<open>the year, from 0 to 399, of day \<open>e\<close> of a 400-year era of 146097 days\<close>
  "year_of_era e = (e - e div 1460 + e div 36524 - e div 146096) div 365"

definition day_of_year :: "int \<Rightarrow> int" where
  \<comment> \<open>the day within that year, counted from 1 March\<close>
  "day_of_year e = e - (365 * year_of_era e + year_of_era e div 4 - year_of_era e div 100)"

definition month_from_march :: "int \<Rightarrow> int" where
  "month_from_march e = (5 * day_of_year e + 2) div 153"

definition civil_from_days :: "int \<Rightarrow> int \<times> int \<times> int" where
  \<comment> \<open>the inverse: year, month (1 to 12) and day of a day number\<close>
  "civil_from_days z =
     (if month_from_march ((z + 719468) mod 146097) < 10
      then (year_of_era ((z + 719468) mod 146097) + ((z + 719468) div 146097) * 400,
            month_from_march ((z + 719468) mod 146097) + 3,
            day_of_year ((z + 719468) mod 146097)
              - (153 * month_from_march ((z + 719468) mod 146097) + 2) div 5 + 1)
      else (year_of_era ((z + 719468) mod 146097) + ((z + 719468) div 146097) * 400 + 1,
            month_from_march ((z + 719468) mod 146097) - 9,
            day_of_year ((z + 719468) mod 146097)
              - (153 * month_from_march ((z + 719468) mod 146097) + 2) div 5 + 1))"

definition LocalTime :: "int \<Rightarrow> Date \<Rightarrow> int" where
  "LocalTime tz t = t - tz * 60000"

definition getFullYear :: "int \<Rightarrow> Date \<Rightarrow> int" where
  "getFullYear tz t = (case civil_from_days (LocalTime tz t div msPerDay) of (y, m, d) \<Rightarrow> y)"

definition getMonth :: "int \<Rightarrow> Date \<Rightarrow> int" where
  \<comment> \<open>months count from 0\<close>
  "getMonth tz t = (case civil_from_days (LocalTime tz t div msPerDay) of (y, m, d) \<Rightarrow> m - 1)"

definition new_Date :: "int \<Rightarrow> int \<Rightarrow> int \<Rightarrow> int \<Rightarrow> Date" where
  \<comment> \<open>\<^verbatim>\<open>new Date(y, m, d)\<close>: local midnight; month and day may lie out of range and
      carry over; a year from 0 to 99 means 1900 + y\<close>
  "new_Date tz y m d =
     (days_from_civil ((if 0 \<le> y \<and> y \<le> 99 then 1900 + y else y) + m div 12) (m mod 12 + 1) 1
        + d - 1) * msPerDay + tz * 60000"

definition new_Date_time :: "int \<Rightarrow> int \<Rightarrow> int \<Rightarrow> int \<Rightarrow> int \<Rightarrow> int \<Rightarrow> Date" where
  \<comment> \<open>\<^verbatim>\<open>new Date(y, m, d, h, min)\<close>\<close>
  "new_Date_time tz y m d h mi = new_Date tz y m d + (h * 60 + mi) * 60000"

definition toISOString :: "Date \<Rightarrow> string" where
  \<comment> \<open>the UTC fields; only the date part is spelled out, the application reads no more\<close>
  "toISOString t =
     (case civil_from_days (t div msPerDay) of (y, m, d) \<Rightarrow>
        (if 0 \<le> y \<and> y \<le> 9999 then padStart 4 CHR ''0'' (digits (nat y))
         else (if y < 0 then CHR ''-'' else CHR ''+'') # padStart 6 CHR ''0'' (digits (nat \<bar>y\<bar>)))
        @ ''-'' @ padStart 2 CHR ''0'' (digits (nat m))
        @ ''-'' @ padStart 2 CHR ''0'' (digits (nat d))
        @ ''T'')"

section \<open>The record store\<close>

datatype kind = Expense | Income | Transfer

record account =
  a_id :: nat
  a_name :: string
  institution :: string
  a_type :: string

record category =
  c_id :: nat
  c_name :: string
  c_kind :: kind
  is_fixed :: int

record transaction =
  t_id :: nat
  tdate :: string
  description :: string
  amount :: real
  kind :: kind
  account_id :: nat
  category_id :: "nat option"
  t_note :: string

record fixed_item =
  f_id :: nat
  f_name :: string
  f_amount :: real
  f_day :: int
  f_category_id :: "nat option"

text \<open>
  The tables of \<^verbatim>\<open>initDb\<close>.  Rows are kept in insertion order; the two counters are
  the last keys \<^verbatim>\<open>AUTOINCREMENT\<close> handed out.  \<^verbatim>\<open>settings\<close> has its key as primary
  key and is a map.
\<close>

record store =
  accounts :: "account list"
  categories :: "category list"
  transactions :: "transaction list"
  settings :: "string \<rightharpoonup> string"
  fixed_items :: "fixed_item list"
  transactions_seq :: nat
  fixed_items_seq :: nat

definition default_account :: string where
  "default_account = ''Conta Padr'' @ [CHR 0xE3] @ ''o''"

section \<open>Settings\<close>

definition getSetting :: "store \<Rightarrow> string \<Rightarrow> string \<Rightarrow> string" where
  "getSetting st key def = (case settings st key of None \<Rightarrow> def | Some v \<Rightarrow> v)"

section \<open>Month range and summary\<close>

definition getMonthRangeISO :: "int \<Rightarrow> Date \<Rightarrow> string \<times> string" where
  "getMonthRangeISO tz d =
     (let y = getFullYear tz d;
          m = getMonth tz d;
          start = new_Date tz y m 1;
          finish = new_Date tz y (m + 1) 0;
          toISO = (\<lambda>x. take 10 (toISOString x))
      in (toISO start, toISO finish))"

type_synonym row = "transaction \<times> int option"

definition cat_fixed :: "store \<Rightarrow> transaction \<Rightarrow> int option" where
  \<comment> \<open>\<^verbatim>\<open>LEFT JOIN categories c ON c.id = t.category_id\<close>, column \<^verbatim>\<open>c.is_fixed\<close>\<close>
  "cat_fixed st t =
     (case category_id t of
        None \<Rightarrow> None
      | Some c \<Rightarrow> map_option is_fixed (find (\<lambda>x. c_id x = c) (categories st)))"

definition month_rows :: "store \<Rightarrow> string \<Rightarrow> string \<Rightarrow> row list" where
  "month_rows st start finish =
     map (\<lambda>t. (t, cat_fixed st t))
       (filter (\<lambda>t. tdate t \<ge> start \<and> tdate t \<le> finish) (transactions st))"

fun summary_loop ::
  "(real \<Rightarrow> real) \<Rightarrow> row list \<Rightarrow> real \<times> real \<times> real \<times> real \<Rightarrow> real \<times> real \<times> real \<times> real" where
  \<comment> \<open>the \<^verbatim>\<open>for\<close> loop of \<^verbatim>\<open>monthSummary\<close>; \<open>r\<close> rounds each \<^verbatim>\<open>+=\<close>\<close>
  "summary_loop r [] acc = acc"
| "summary_loop r ((t, cf) # rows) (inc, expn, fixd, vari) =
     (let inc' = (if kind t = Income then r (inc + amount t) else inc)
      in if kind t = Expense then
           (let v = \<bar>amount t\<bar>
            in if cf = Some 1 then summary_loop r rows (inc', r (expn + v), r (fixd + v), vari)
               else summary_loop r rows (inc', r (expn + v), fixd, r (vari + v)))
         else summary_loop r rows (inc', expn, fixd, vari))"

record summary =
  income :: real
  expense :: real
  savings :: real
  Y :: real
  fixedSpent :: real
  variableSpent :: real
  variableBudget :: real
  variableRemaining :: real

definition monthSummary :: "js_runtime \<Rightarrow> int \<Rightarrow> Date \<Rightarrow> store \<Rightarrow> summary" where
  "monthSummary js tz now st =
     (case getMonthRangeISO tz now of (start, finish) \<Rightarrow>
      case summary_loop (fl js) (month_rows st start finish) (0, 0, 0, 0) of
        (inc, expn, fixd, vari) \<Rightarrow>
          (let y = or_zero (parseFloat js (getSetting st ''fixed_monthly_budget'' ''0''));
               variableBudget' = max 0 (fl js (inc - y));
               variableRemaining' = fl js (variableBudget' - vari)
           in \<lparr> income = inc, expense = expn, savings = fl js (inc - expn), Y = y,
                fixedSpent = fixd, variableSpent = vari,
                variableBudget = variableBudget', variableRemaining = variableRemaining' \<rparr>))"

definition month_transactions :: "int \<Rightarrow> Date \<Rightarrow> store \<Rightarrow> transaction list" where
  \<comment> \<open>the rows the query of \<^verbatim>\<open>monthSummary\<close> selects\<close>
  "month_transactions tz now st =
     (case getMonthRangeISO tz now of (start, finish) \<Rightarrow>
        filter (\<lambda>t. tdate t \<ge> start \<and> tdate t \<le> finish) (transactions st))"


fun fsum :: "(real \<Rightarrow> real) \<Rightarrow> real list \<Rightarrow> real \<Rightarrow> real" where
  \<comment> \<open>what an accumulator holds after \<^verbatim>\<open>a += x\<close> for each \<open>x\<close> of the list in turn\<close>
  "fsum r [] a = a"
| "fsum r (x # xs) a = fsum r xs (r (a + x))"

section \<open>Writing to the store\<close>

text \<open>
  \<^verbatim>\<open>execSql\<close> runs one statement in a transaction of its own and rejects when the
  engine reports an error.  A statement fails when a \<^verbatim>\<open>NOT NULL\<close> column would
  receive \<open>NaN\<close> (which the engine binds as \<^verbatim>\<open>NULL\<close>), or when the engine cannot
  carry it out; the flag \<open>io\<close> says whether it can.
\<close>

datatype error = TypeError | StoreError

datatype outcome = Returned | Alerted string string | Threw error

definition account_id_by_name :: "store \<Rightarrow> string \<Rightarrow> nat option" where
  \<comment> \<open>\<^verbatim>\<open>SELECT id FROM accounts WHERE name=?\<close>, first row\<close>
  "account_id_by_name st n = map_option a_id (find (\<lambda>a. a_name a = n) (accounts st))"

definition category_id_by_name :: "store \<Rightarrow> string \<Rightarrow> nat option" where
  \<comment> \<open>\<^verbatim>\<open>SELECT id FROM categories WHERE name=?\<close>, first row if there is one\<close>
  "category_id_by_name st n = map_option c_id (find (\<lambda>c. c_name c = n) (categories st))"

definition insert_transaction ::
  "bool \<Rightarrow> store \<Rightarrow> string \<Rightarrow> string \<Rightarrow> jsnum \<Rightarrow> kind \<Rightarrow> nat \<Rightarrow> nat option \<Rightarrow> string \<Rightarrow> error + store" where
  "insert_transaction io st d desc a k acc cat n =
     (if \<not> io then Inl StoreError
      else case a of
        NaN \<Rightarrow> Inl StoreError
      | Num x \<Rightarrow>
          Inr (st\<lparr> transactions := transactions st @
                    [\<lparr> t_id = Suc (transactions_seq st), tdate = d, description = desc,
                       amount = x, kind = k, account_id = acc, category_id = cat, t_note = n \<rparr>],
                  transactions_seq := Suc (transactions_seq st) \<rparr>))"

definition update_transaction ::
  "bool \<Rightarrow> store \<Rightarrow> nat \<Rightarrow> string \<Rightarrow> string \<Rightarrow> jsnum \<Rightarrow> kind \<Rightarrow> nat \<Rightarrow> nat option \<Rightarrow> error + store" where
  \<comment> \<open>\<^verbatim>\<open>UPDATE transactions SET ... WHERE id=?\<close>; no row with that id is no error\<close>
  "update_transaction io st i d desc a k acc cat =
     (if \<not> io then Inl StoreError
      else case a of
        NaN \<Rightarrow> if list_ex (\<lambda>t. t_id t = i) (transactions st) then Inl StoreError else Inr st
      | Num x \<Rightarrow>
          Inr (st\<lparr> transactions :=
                    map (\<lambda>t. if t_id t = i
                              then t\<lparr> tdate := d, description := desc, amount := x, kind := k,
                                      account_id := acc, category_id := cat \<rparr>
                              else t) (transactions st) \<rparr>))"

definition insert_fixed_item ::
  "bool \<Rightarrow> store \<Rightarrow> string \<Rightarrow> jsnum \<Rightarrow> int option \<Rightarrow> nat option \<Rightarrow> error + store" where
  "insert_fixed_item io st n a d cat =
     (if \<not> io then Inl StoreError
      else case (a, d) of
        (Num x, Some dd) \<Rightarrow>
          Inr (st\<lparr> fixed_items := fixed_items st @
                    [\<lparr> f_id = Suc (fixed_items_seq st), f_name = n, f_amount = x, f_day = dd,
                       f_category_id = cat \<rparr>],
                  fixed_items_seq := Suc (fixed_items_seq st) \<rparr>)
      | _ \<Rightarrow> Inl StoreError)"

subsection \<open>Messages\<close>

definition attention :: string where
  "attention = ''Aten'' @ [CHR 0xE7, CHR 0xE3] @ ''o''"

definition msg_desc_valor :: string where
  "msg_desc_valor = ''Preencha descri'' @ [CHR 0xE7, CHR 0xE3] @ ''o e valor.''"

definition msg_adicionado :: string where
  "msg_adicionado = ''Lan'' @ [CHR 0xE7] @ ''amento adicionado.''"

definition msg_data_desc :: string where
  "msg_data_desc = ''Preencha data e descri'' @ [CHR 0xE7, CHR 0xE3] @ ''o.''"

definition msg_gerados :: string where
  "msg_gerados = ''Fixos gerados para o m'' @ [CHR 0xEA] @ ''s atual.''"

subsection \<open>Quick add\<close>

definition input_amount :: "js_runtime \<Rightarrow> string \<Rightarrow> jsnum" where
  \<comment> \<open>\<^verbatim>\<open>Number(String(val).replace(",", ".") || 0)\<close>\<close>
  "input_amount js val =
     (let s = replace_first CHR '','' CHR ''.'' val
      in if s = [] then Num 0 else Number js s)"

definition QuickAdd_submit ::
  "bool \<Rightarrow> js_runtime \<Rightarrow> Date \<Rightarrow> string \<Rightarrow> string \<Rightarrow> kind \<Rightarrow> string \<Rightarrow> store \<Rightarrow> outcome \<times> store" where
  "QuickAdd_submit io js now desc val knd cat st =
     (let amount' = input_amount js val
      in if \<not> truthy amount' \<or> trim desc = [] then (Alerted attention msg_desc_valor, st)
         else case account_id_by_name st default_account of
           None \<Rightarrow> (Threw TypeError, st)
         | Some accId \<Rightarrow>
             (let catId = (if cat \<noteq> [] then category_id_by_name st cat else None);
                  today = take 10 (toISOString now)
              in case insert_transaction io st today (trim desc)
                        (if knd = Expense then neg (Math_abs amount') else Math_abs amount')
                        knd accId catId [] of
                   Inl e \<Rightarrow> (Threw e, st)
                 | Inr st' \<Rightarrow> (Alerted ''OK'' msg_adicionado, st')))"

subsection \<open>Fixed items\<close>

definition Fixos_add ::
  "bool \<Rightarrow> js_runtime \<Rightarrow> string \<Rightarrow> string \<Rightarrow> string \<Rightarrow> string \<Rightarrow> store \<Rightarrow> outcome \<times> store" where
  "Fixos_add io js name val day cat st =
     (if trim name = [] \<or> val = [] \<or> day = []
      then (Alerted attention ''Preencha nome, valor e dia.'', st)
      else let amount' = input_amount js val
           in if le_zero amount' then (Alerted attention ''Valor deve ser > 0.'', st)
              else case insert_fixed_item io st (trim name) amount' (parseInt js day)
                          (category_id_by_name st cat) of
                     Inl e \<Rightarrow> (Threw e, st)
                   | Inr st' \<Rightarrow> (Returned, st'))"

fun generate_loop ::
  "(nat \<Rightarrow> bool) \<Rightarrow> nat \<Rightarrow> nat \<Rightarrow> int \<Rightarrow> int \<Rightarrow> fixed_item list \<Rightarrow> store \<Rightarrow> error option \<times> store" where
  \<comment> \<open>the \<^verbatim>\<open>for\<close> loop of \<^verbatim>\<open>generateMonth\<close>; \<open>io k\<close> tells whether the engine carries
      out the insert of the item at position \<open>k\<close>\<close>
  "generate_loop io k accId y m [] st = (None, st)"
| "generate_loop io k accId y m (it # items) st =
     (let d = padStart 2 CHR ''0'' (String_int (f_day it));
          tdate' = String_int y @ ''-'' @ padStart 2 CHR ''0'' (String_int m) @ ''-'' @ d
      in case insert_transaction (io k) st tdate' (f_name it)
                (neg (Math_abs (Num (f_amount it)))) Expense accId (f_category_id it) ''fixo'' of
           Inl e \<Rightarrow> (Some e, st)
         | Inr st' \<Rightarrow> generate_loop io (Suc k) accId y m items st')"

definition generateMonth ::
  "(nat \<Rightarrow> bool) \<Rightarrow> int \<Rightarrow> Date \<Rightarrow> fixed_item list \<Rightarrow> store \<Rightarrow> outcome \<times> store" where
  \<comment> \<open>\<open>items\<close> is the list the screen holds, loaded from \<^verbatim>\<open>fixed_items\<close>\<close>
  "generateMonth io tz now items st =
     (case account_id_by_name st default_account of
        None \<Rightarrow> (Threw TypeError, st)
      | Some accId \<Rightarrow>
          (let y = getFullYear tz now;
               m = getMonth tz now + 1
           in case generate_loop io 0 accId y m items st of
                (Some e, st') \<Rightarrow> (Threw e, st')
              | (None, st') \<Rightarrow> (Alerted ''OK'' msg_gerados, st')))"

definition generated :: "nat \<Rightarrow> int \<Rightarrow> int \<Rightarrow> nat \<Rightarrow> fixed_item list \<Rightarrow> transaction list" where
  \<comment> \<open>one expense per template, as the specification describes it: keys from \<open>n + 1\<close> on,
      dated year \<open>y\<close>, month \<open>m\<close> and the template's day\<close>
  "generated accId y m n items =
     map (\<lambda>(i, it).
            \<lparr> t_id = Suc i,
              tdate = String_int y @ ''-'' @ padStart 2 CHR ''0'' (String_int m) @ ''-''
                        @ padStart 2 CHR ''0'' (String_int (f_day it)),
              description = f_name it, amount = - \<bar>f_amount it\<bar>, kind = Expense,
              account_id = accId, category_id = f_category_id it, t_note = ''fixo'' \<rparr>)
         (enumerate n items)"

subsection \<open>Editing a transaction\<close>

datatype amount_field = Numeric jsnum | Text string

text \<open>
  \<^verbatim>\<open>editing.amount\<close> is the number \<^verbatim>\<open>startEdit\<close> read from the row until the user
  types in the field, and the typed text from then on.
\<close>

record editing =
  e_id :: nat
  e_tdate :: string
  e_description :: string
  e_amount :: amount_field
  e_kind :: kind
  e_category :: string

definition Number_or_zero :: "js_runtime \<Rightarrow> amount_field \<Rightarrow> jsnum" where
  \<comment> \<open>\<^verbatim>\<open>Number(e.amount || 0)\<close>\<close>
  "Number_or_zero js a =
     (case a of
        Numeric n \<Rightarrow> if truthy n then n else Num 0
      | Text s \<Rightarrow> if s = [] then Num 0 else Number js s)"

definition updateTransaction ::
  "bool \<Rightarrow> store \<Rightarrow> nat \<Rightarrow> string \<Rightarrow> string \<Rightarrow> jsnum \<Rightarrow> kind \<Rightarrow> string option \<Rightarrow> error + store" where
  "updateTransaction io st i d desc a k categoryName =
     (case account_id_by_name st default_account of
        None \<Rightarrow> Inl TypeError
      | Some accId \<Rightarrow>
          (let catId = (case categoryName of
                          None \<Rightarrow> None
                        | Some n \<Rightarrow> if n \<noteq> [] then category_id_by_name st n else None)
           in update_transaction io st i d desc a k accId catId))"

definition Historico_saveEdit :: "bool \<Rightarrow> js_runtime \<Rightarrow> editing \<Rightarrow> store \<Rightarrow> outcome \<times> store" where
  "Historico_saveEdit io js e st =
     (if e_description e = [] \<or> e_tdate e = [] then (Alerted attention msg_data_desc, st)
      else let n = Number_or_zero js (e_amount e);
               amt = (if e_kind e = Expense then neg (Math_abs n) else Math_abs n)
           in case updateTransaction io st (e_id e) (e_tdate e) (trim (e_description e)) amt
                     (e_kind e) (if e_category e = [] then None else Some (e_category e)) of
                Inl err \<Rightarrow> (Threw err, st)
              | Inr st' \<Rightarrow> (Returned, st'))"

definition sign_ok :: "transaction \<Rightarrow> bool" where
  \<comment> \<open>the sign convention: expenses are stored negative, income positive\<close>
  "sign_ok t = (case kind t of Expense \<Rightarrow> amount t \<le> 0 | Income \<Rightarrow> amount t \<ge> 0 | Transfer \<Rightarrow> True)"

section \<open>Concrete data for the examples\<close>

text \<open>
  The engine's rounding: to the nearest number with a significand of 53 bits, ties to
  the even one.  The exponent is not bounded: below the overflow threshold this is the
  IEEE sum or difference of two doubles, and overflow is not modelled.
\<close>

definition round_even :: "real \<Rightarrow> int" where
  \<comment> \<open>the nearest integer, the even one of two that are equally near\<close>
  "round_even y =
     (if y - of_int \<lfloor>y\<rfloor> < 1 / 2 then \<lfloor>y\<rfloor>
      else if y - of_int \<lfloor>y\<rfloor> > 1 / 2 then \<lfloor>y\<rfloor> + 1
      else if even \<lfloor>y\<rfloor> then \<lfloor>y\<rfloor> else \<lfloor>y\<rfloor> + 1)"

definition round53 :: "real \<Rightarrow> real" where
  "round53 x =
     (if x = 0 then 0
      else of_int (round_even (x / 2 powr of_int (\<lfloor>log 2 \<bar>x\<bar>\<rfloor> - 52)))
             * 2 powr of_int (\<lfloor>log 2 \<bar>x\<bar>\<rfloor> - 52))"

text \<open>
  The engine's conversions on decimal literals with an optional sign and fraction and
  no exponent, each result rounded by \<open>r\<close>.  \<^verbatim>\<open>Number\<close> wants the whole trimmed string
  to be a literal (the empty string is 0); \<^verbatim>\<open>parseFloat\<close> and \<^verbatim>\<open>parseInt\<close> skip leading
  white space and read the longest prefix that is one.  Literals with an exponent and
  the literal \<^verbatim>\<open>Infinity\<close> are outside this fragment.
\<close>

definition is_digit :: "char \<Rightarrow> bool" where
  "is_digit c = (CHR ''0'' \<le> c \<and> c \<le> CHR ''9'')"

definition digits_value :: "string \<Rightarrow> nat" where
  "digits_value ds = foldl (\<lambda>n c. 10 * n + (of_char c - 48)) 0 ds"

definition split_sign :: "string \<Rightarrow> int \<times> string" where
  "split_sign s =
     (case s of
        [] \<Rightarrow> (1, s)
      | c # cs \<Rightarrow> if c = CHR ''-'' then (- 1, cs) else if c = CHR ''+'' then (1, cs) else (1, s))"

definition decimal_prefix :: "string \<Rightarrow> (real \<times> string) option" where
  "decimal_prefix s =
     (case split_sign s of (sg, s1) \<Rightarrow>
        (let ip = takeWhile is_digit s1;
             r1 = dropWhile is_digit s1;
             fp = (case r1 of [] \<Rightarrow> [] | c # cs \<Rightarrow> if c = CHR ''.'' then takeWhile is_digit cs else []);
             r2 = (case r1 of [] \<Rightarrow> [] | c # cs \<Rightarrow> if c = CHR ''.'' then dropWhile is_digit cs else r1)
         in if ip = [] \<and> fp = [] then None
            else Some (of_int sg * (of_nat (digits_value ip) + of_nat (digits_value fp) / 10 ^ length fp), r2)))"

definition Number_decimal :: "(real \<Rightarrow> real) \<Rightarrow> string \<Rightarrow> jsnum" where
  "Number_decimal r s =
     (let t = trim s
      in if t = [] then Num 0
         else case decimal_prefix t of
                None \<Rightarrow> NaN
              | Some (x, rest) \<Rightarrow> if rest = [] then Num (r x) else NaN)"

definition parseFloat_decimal :: "(real \<Rightarrow> real) \<Rightarrow> string \<Rightarrow> jsnum" where
  "parseFloat_decimal r s =
     (case decimal_prefix (dropWhile is_space s) of
        None \<Rightarrow> NaN
      | Some (x, rest) \<Rightarrow> Num (r x))"

definition parseInt_decimal :: "string \<Rightarrow> int option" where
  "parseInt_decimal s =
     (case split_sign (dropWhile is_space s) of (sg, s1) \<Rightarrow>
        (let ip = takeWhile is_digit s1
         in if ip = [] then None else Some (sg * int (digits_value ip))))"

definition decimal_js :: js_runtime where
  "decimal_js =
     \<lparr> fl = round53, Number = Number_decimal round53, parseFloat = parseFloat_decimal round53,
       parseInt = parseInt_decimal \<rparr>"



text \<open>The store as \<^verbatim>\<open>initDb\<close> leaves it on first launch.\<close>

definition seeded :: store where
  "seeded =
     \<lparr> accounts = [\<lparr> a_id = 1, a_name = default_account, institution = ''Manual'', a_type = ''other'' \<rparr>],
       categories =
         [\<lparr> c_id = 1, c_name = ''Aluguel/Condom'' @ [CHR 0xED] @ ''nio'', c_kind = Expense, is_fixed = 1 \<rparr>,
          \<lparr> c_id = 2, c_name = ''Internet'', c_kind = Expense, is_fixed = 1 \<rparr>,
          \<lparr> c_id = 3, c_name = ''Energia'', c_kind = Expense, is_fixed = 1 \<rparr>,
          \<lparr> c_id = 4, c_name = ''Mercado'', c_kind = Expense, is_fixed = 0 \<rparr>,
          \<lparr> c_id = 5, c_name = ''Transporte'', c_kind = Expense, is_fixed = 0 \<rparr>,
          \<lparr> c_id = 6, c_name = ''Lazer'', c_kind = Expense, is_fixed = 0 \<rparr>,
          \<lparr> c_id = 7, c_name = ''Sal'' @ [CHR 0xE1] @ ''rio'', c_kind = Income, is_fixed = 0 \<rparr>,
          \<lparr> c_id = 8, c_name = ''Outros'', c_kind = Expense, is_fixed = 0 \<rparr>],
       transactions = [],
       settings = Map.empty,
       fixed_items = [],
       transactions_seq = 0,
       fixed_items_seq = 0 \<rparr>"

text \<open>
  The scenario of the specification: income of 5000, a fixed expense of 1200, a
  variable one of 300, and a planned fixed budget of 1200.
\<close>

definition scenario :: store where
  "scenario =
     seeded\<lparr> transactions :=
               [\<lparr> t_id = 1, tdate = ''2026-11-05'', description = ''Salario'', amount = 5000,
                  kind = Income, account_id = 1, category_id = Some 7, t_note = [] \<rparr>,
                \<lparr> t_id = 2, tdate = ''2026-11-10'', description = ''Aluguel'', amount = - 1200,
                  kind = Expense, account_id = 1, category_id = Some 1, t_note = ''fixo'' \<rparr>,
                \<lparr> t_id = 3, tdate = ''2026-11-12'', description = ''Mercado'', amount = - 300,
                  kind = Expense, account_id = 1, category_id = Some 4, t_note = [] \<rparr>],
             transactions_seq := 3,
             settings := [''fixed_monthly_budget'' \<mapsto> ''1200''] \<rparr>"

definition noon_15_nov_2026 :: "int \<Rightarrow> Date" where
  \<comment> \<open>15 November 2026, 12:00 local time\<close>
  "noon_15_nov_2026 tz = new_Date_time tz 2026 10 15 12 0"

definition rent_and_net :: "fixed_item list" where
  "rent_and_net =
     [\<lparr> f_id = 1, f_name = ''Aluguel'', f_amount = 1200, f_day = 5, f_category_id = Some 1 \<rparr>,
      \<lparr> f_id = 2, f_name = ''Internet'', f_amount = 99.5, f_day = 20, f_category_id = Some 2 \<rparr>]"

definition overspent :: store where
  \<comment> \<open>the scenario with a planned fixed budget above the income\<close>
  "overspent = scenario\<lparr> settings := [''fixed_monthly_budget'' \<mapsto> ''6000''] \<rparr>"

definition negative_target :: store where
  \<comment> \<open>the scenario with a negative planned fixed budget\<close>
  "negative_target = scenario\<lparr> settings := [''fixed_monthly_budget'' \<mapsto> ''-500''] \<rparr>"




definition cents :: store where
  \<comment> \<open>three expenses entered as 0,10 (fixed), 0,10 and 19,99 (fixed): the store holds the
      doubles nearest to these\<close>
  "cents =
     seeded\<lparr> transactions :=
               [\<lparr> t_id = 1, tdate = ''2026-11-03'', description = ''Internet'',
                  amount = - round53 (1 / 10), kind = Expense, account_id = 1,
                  category_id = Some 2, t_note = [] \<rparr>,
                \<lparr> t_id = 2, tdate = ''2026-11-04'', description = ''Mercado'',
                  amount = - round53 (1 / 10), kind = Expense, account_id = 1,
                  category_id = Some 4, t_note = [] \<rparr>,
                \<lparr> t_id = 3, tdate = ''2026-11-05'', description = ''Energia'',
                  amount = - round53 (1999 / 100), kind = Expense, account_id = 1,
                  category_id = Some 3, t_note = [] \<rparr>],
             transactions_seq := 3 \<rparr>"


definition rent_row :: "nat \<Rightarrow> transaction" where
  \<comment> \<open>what \<^verbatim>\<open>generateMonth\<close> writes for the first template in November 2026, under key \<open>i\<close>\<close>
  "rent_row i =
     \<lparr> t_id = i, tdate = ''2026-11-05'', description = ''Aluguel'', amount = - 1200,
       kind = Expense, account_id = 1, category_id = Some 1, t_note = ''fixo'' \<rparr>"

definition net_row :: "nat \<Rightarrow> transaction" where
  "net_row i =
     \<lparr> t_id = i, tdate = ''2026-11-20'', description = ''Internet'', amount = - 99.5,
       kind = Expense, account_id = 1, category_id = Some 2, t_note = ''fixo'' \<rparr>"

definition always :: "nat \<Rightarrow> bool" where
  \<comment> \<open>an engine that carries out every insert\<close>
  "always k = True"

definition second_fails :: "nat \<Rightarrow> bool" where
  \<comment> \<open>an engine that fails on the second insert of a pass\<close>
  "second_fails k = (k \<noteq> 1)"

definition zero_edit :: editing where
  \<comment> \<open>the groceries of the scenario, edited to an amount of 0\<close>
  "zero_edit =
     \<lparr> e_id = 3, e_tdate = ''2026-11-12'', e_description = ''Mercado'', e_amount = Text ''0'',
       e_kind = Expense, e_category = ''Mercado'' \<rparr>"

definition blank_edit :: editing where
  \<comment> \<open>the same edit with the description cleared\<close>
  "blank_edit = zero_edit\<lparr> e_description := [], e_amount := Text ''250'' \<rparr>"

definition raise_edit :: editing where
  \<comment> \<open>the salary of the scenario, raised to 5200.50\<close>
  "raise_edit =
     \<lparr> e_id = 1, e_tdate = ''2026-11-05'', e_description = ''Salario'', e_amount = Text ''5200.50'',
       e_kind = Income, e_category = [] \<rparr>"

definition uber_row :: transaction where
  \<comment> \<open>a ride of 23,50 entered on 15 November 2026 on the freshly seeded store\<close>
  "uber_row =
     \<lparr> t_id = 1, tdate = ''2026-11-15'', description = ''Uber'', amount = - 23.5,
       kind = Expense, account_id = 1, category_id = Some 5, t_note = [] \<rparr>"

definition raised_row :: transaction where
  \<comment> \<open>the first row of the scenario after \<open>raise_edit\<close>\<close>
  "raised_row =
     \<lparr> t_id = 1, tdate = ''2026-11-05'', description = ''Salario'', amount = 5200.5,
       kind = Income, account_id = 1, category_id = None, t_note = [] \<rparr>"

definition month_end :: store where
  \<comment> \<open>expenses on the last day of October and of November 2026\<close>
  "month_end =
     seeded\<lparr> transactions :=
               [\<lparr> t_id = 1, tdate = ''2026-10-31'', description = ''Lazer'', amount = - 80,
                  kind = Expense, account_id = 1, category_id = Some 6, t_note = [] \<rparr>,
                \<lparr> t_id = 2, tdate = ''2026-11-30'', description = ''Mercado'', amount = - 45,
                  kind = Expense, account_id = 1, category_id = Some 4, t_note = [] \<rparr>],
             transactions_seq := 2 \<rparr>"

section \<open>The engine's rounding\<close>

lemma round_even_error: "\<bar>of_int (round_even y) - y\<bar> \<le> 1 / 2"
  unfolding round_even_def by (auto; linarith)

lemma round_even_of_int [simp]: "round_even (of_int i) = i"
  by (simp add: round_even_def)

lemma two_powr_floor_log: "x \<noteq> 0 \<Longrightarrow> 2 powr of_int \<lfloor>log 2 \<bar>x\<bar>\<rfloor> \<le> \<bar>x\<bar>"
proof -
  assume "x \<noteq> 0"
  then have "2 powr log 2 \<bar>x\<bar> = \<bar>x\<bar>" by simp
  moreover have "2 powr of_int \<lfloor>log 2 \<bar>x\<bar>\<rfloor> \<le> (2::real) powr log 2 \<bar>x\<bar>"
    by (rule powr_mono) simp_all
  ultimately show ?thesis by simp
qed

text \<open>The relative error of one rounding is at most 2 to the power -53.\<close>

lemma round53_error: "\<bar>round53 x - x\<bar> \<le> \<bar>x\<bar> / 2 ^ 53"
proof (cases "x = 0")
  case True
  then show ?thesis by (simp add: round53_def)
next
  case False
  define e where "e = \<lfloor>log 2 \<bar>x\<bar>\<rfloor>"
  define q :: real where "q = 2 powr of_int (e - 52)"
  have q: "0 < q" by (simp add: q_def)
  have r: "round53 x = of_int (round_even (x / q)) * q"
    using False by (simp add: round53_def q_def e_def)
  have "round53 x - x = (of_int (round_even (x / q)) - x / q) * q"
    using q by (simp add: r field_simps)
  then have "\<bar>round53 x - x\<bar> = \<bar>of_int (round_even (x / q)) - x / q\<bar> * q"
    using q by (simp add: abs_mult)
  also have "\<dots> \<le> 1 / 2 * q"
    using q round_even_error [of "x / q"] by (intro mult_right_mono) simp_all
  also have "q = 2 powr of_int e / (2::real) ^ 52"
    by (simp add: q_def powr_diff)
  also have "1 / 2 * (2 powr of_int e / 2 ^ 52) = 2 powr of_int e / (2::real) ^ 53"
    by simp
  also have "\<dots> \<le> \<bar>x\<bar> / 2 ^ 53"
    using two_powr_floor_log [OF False] by (simp add: e_def divide_right_mono)
  finally show ?thesis .
qed

lemma floor_log_binade:
  assumes "x \<noteq> 0" "2 powr of_int k \<le> \<bar>x\<bar>" "\<bar>x\<bar> < 2 powr of_int (k + 1)"
  shows "\<lfloor>log 2 \<bar>x\<bar>\<rfloor> = k"
proof (rule floor_unique)
  from assms have pos: "0 < \<bar>x\<bar>" by simp
  show "of_int k \<le> log 2 \<bar>x\<bar>"
    using assms(2) pos by (simp add: le_log_iff)
  show "log 2 \<bar>x\<bar> < of_int k + 1"
    using assms(3) pos by (simp add: log_less_iff add.commute)
qed

lemma round53_in_binade:
  assumes "x \<noteq> 0" "2 powr of_int k \<le> \<bar>x\<bar>" "\<bar>x\<bar> < 2 powr of_int (k + 1)"
  shows "round53 x = of_int (round_even (x / 2 powr of_int (k - 52))) * 2 powr of_int (k - 52)"
  using assms(1) by (simp add: round53_def floor_log_binade [OF assms])

lemma two_powr_nat: "2 powr of_int (int n) = (2::real) ^ n"
  by (simp add: powr_realpow)

lemma two_powr_neg_nat: "2 powr of_int (- int n) = 1 / (2::real) ^ n"
  by (simp add: powr_minus powr_realpow divide_inverse)

lemma two_powr_succ: "2 powr of_int (k + 1) = 2 powr of_int k * (2::real)"
  by (simp add: powr_add)

lemma round53_small:
  assumes "1 \<le> \<bar>x\<bar> * 2 ^ n" "\<bar>x\<bar> * 2 ^ n < 2"
  shows "round53 x = of_int (round_even (x * 2 ^ (n + 52))) / 2 ^ (n + 52)"
proof -
  have p: "0 < (2::real) ^ n" by simp
  from assms(1) have x: "x \<noteq> 0" by auto
  have a: "2 powr of_int (- int n) \<le> \<bar>x\<bar>"
    unfolding two_powr_neg_nat using assms(1) p by (simp add: field_simps)
  have b: "\<bar>x\<bar> < 2 powr of_int (- int n + 1)"
    unfolding two_powr_succ two_powr_neg_nat using assms(2) p by (simp add: field_simps)
  have c: "- int n - 52 = - int (n + 52)" by simp
  have "round53 x = of_int (round_even (x / (1 / 2 ^ (n + 52)))) * (1 / 2 ^ (n + 52))"
    using round53_in_binade [OF x a b] unfolding c two_powr_neg_nat .
  then show ?thesis by simp
qed

lemma round53_large:
  assumes "2 ^ n \<le> \<bar>x\<bar>" "\<bar>x\<bar> < 2 * 2 ^ n" "n \<le> 52"
  shows "round53 x = of_int (round_even (x * 2 ^ (52 - n))) / 2 ^ (52 - n)"
proof -
  have p: "0 < (2::real) ^ n" by simp
  with assms(1) have "0 < \<bar>x\<bar>" by linarith
  then have x: "x \<noteq> 0" by simp
  have a: "2 powr of_int (int n) \<le> \<bar>x\<bar>"
    unfolding two_powr_nat using assms(1) .
  have b: "\<bar>x\<bar> < 2 powr of_int (int n + 1)"
    unfolding two_powr_succ two_powr_nat using assms(2) by simp
  have c: "int n - 52 = - int (52 - n)" using assms(3) by simp
  have "round53 x = of_int (round_even (x / (1 / 2 ^ (52 - n)))) * (1 / 2 ^ (52 - n))"
    using round53_in_binade [OF x a b] unfolding c two_powr_neg_nat .
  then show ?thesis by simp
qed

text \<open>
  Numbers with a significand of 53 bits, the integers below 2 to the power 53 among
  them, are left as they are.
\<close>

lemma round53_dyadic:
  assumes "\<bar>m\<bar> < 2 ^ 53"
  shows "round53 (of_int m / 2 ^ n) = of_int m / 2 ^ n"
proof (cases "m = 0")
  case True
  then show ?thesis by (simp add: round53_def)
next
  case False
  define x :: real where "x = of_int m / 2 ^ n"
  define e where "e = \<lfloor>log 2 \<bar>x\<bar>\<rfloor>"
  have x: "x \<noteq> 0" using False by (simp add: x_def)
  have "2 powr of_int e \<le> \<bar>x\<bar>"
    unfolding e_def by (rule two_powr_floor_log [OF x])
  also have "\<bar>x\<bar> < 2 ^ 53 / 2 ^ n"
  proof -
    from assms have "\<bar>real_of_int m\<bar> < 2 ^ 53"
      by (metis of_int_abs of_int_less_numeral_power_cancel_iff)
    then show ?thesis
      by (simp add: x_def divide_strict_right_mono)
  qed
  also have "\<dots> = 2 powr (53 - real n)"
    by (simp add: powr_diff powr_realpow)
  finally have "of_int e < 53 - real n"
    by simp
  then have le: "e + int n \<le> 52" by linarith
  define k where "k = nat (52 - e - int n)"
  have k: "int k = 52 - e - int n" using le by (simp add: k_def)
  have "e - 52 = - int (k + n)" using k by simp
  then have q: "2 powr of_int (e - 52) = 1 / ((2::real) ^ k * 2 ^ n)"
    by (simp only: two_powr_neg_nat power_add)
  have r: "round53 x = of_int (round_even (x / 2 powr of_int (e - 52))) * 2 powr of_int (e - 52)"
    by (simp only: round53_def x if_False e_def)
  have "x / (1 / (2 ^ k * 2 ^ n)) = of_int (m * 2 ^ k)"
    by (simp add: x_def)
  then have "round_even (x / (1 / (2 ^ k * 2 ^ n))) = m * 2 ^ k"
    by (simp only: round_even_of_int)
  then have "round53 x = of_int (m * 2 ^ k) * (1 / (2 ^ k * 2 ^ n))"
    unfolding r q by (rule arg_cong2 [where f = "\<lambda>a b. of_int a * b", OF _ refl])
  then show ?thesis
    by (simp add: x_def)
qed

lemma round53_numeral [simp]:
  "\<bar>numeral w :: int\<bar> < 2 ^ 53 \<Longrightarrow> round53 (numeral w) = numeral w"
  "\<bar>numeral w :: int\<bar> < 2 ^ 53 \<Longrightarrow> round53 (- numeral w) = - numeral w"
  using round53_dyadic [of "numeral w" 0] round53_dyadic [of "- numeral w" 0] by simp_all

lemma round53_0 [simp]: "round53 0 = 0"
  by (simp add: round53_def)

text \<open>The rule for each binade that the examples meet.\<close>

lemmas round53_binades =
  round53_small [where n = 4] round53_small [where n = 3]
  round53_large [where n = 4] round53_large [where n = 6] round53_large [where n = 10]
  round53_large [where n = 12]


section \<open>Rounded sums\<close>



lemma fsum_exact: "fsum (\<lambda>x. x) xs a = a + sum_list xs"
  by (induction xs arbitrary: a) simp_all

section \<open>The monthly summary\<close>


text \<open>Each accumulator of the loop is a rounded sum over the rows it takes.\<close>

lemma summary_loop_sums:
  "summary_loop r rows (i, e, f, v) =
     (fsum r (map (\<lambda>x. amount (fst x)) (filter (\<lambda>x. kind (fst x) = Income) rows)) i,
      fsum r (map (\<lambda>x. \<bar>amount (fst x)\<bar>) (filter (\<lambda>x. kind (fst x) = Expense) rows)) e,
      fsum r (map (\<lambda>x. \<bar>amount (fst x)\<bar>)
            (filter (\<lambda>x. kind (fst x) = Expense \<and> snd x = Some 1) rows)) f,
      fsum r (map (\<lambda>x. \<bar>amount (fst x)\<bar>)
            (filter (\<lambda>x. kind (fst x) = Expense \<and> snd x \<noteq> Some 1) rows)) v)"
proof (induction rows arbitrary: i e f v)
  case Nil
  show ?case by simp
next
  case (Cons x rows)
  obtain t cf where x: "x = (t, cf)" by (cases x)
  show ?case
    by (cases "kind t") (simp_all add: x Cons.IH Let_def)
qed

lemma month_rows_map:
  "map (\<lambda>x. g (fst x)) (filter (\<lambda>x. P (fst x) (snd x)) (month_rows st a b))
   = map g (filter (\<lambda>t. P t (cat_fixed st t))
       (filter (\<lambda>t. tdate t \<ge> a \<and> tdate t \<le> b) (transactions st)))"
  by (simp add: month_rows_def filter_map comp_def)

lemma monthSummary_fields:
  "monthSummary js tz now st =
     (let txs = month_transactions tz now st;
          inc = fsum (fl js) (map amount (filter (\<lambda>t. kind t = Income) txs)) 0;
          expn = fsum (fl js) (map (\<lambda>t. \<bar>amount t\<bar>) (filter (\<lambda>t. kind t = Expense) txs)) 0;
          fixd = fsum (fl js) (map (\<lambda>t. \<bar>amount t\<bar>)
                   (filter (\<lambda>t. kind t = Expense \<and> cat_fixed st t = Some 1) txs)) 0;
          vari = fsum (fl js) (map (\<lambda>t. \<bar>amount t\<bar>)
                   (filter (\<lambda>t. kind t = Expense \<and> cat_fixed st t \<noteq> Some 1) txs)) 0;
          y = or_zero (parseFloat js (getSetting st ''fixed_monthly_budget'' ''0''))
      in \<lparr> income = inc, expense = expn, savings = fl js (inc - expn), Y = y,
           fixedSpent = fixd, variableSpent = vari,
           variableBudget = max 0 (fl js (inc - y)),
           variableRemaining = fl js (max 0 (fl js (inc - y)) - vari) \<rparr>)"
proof -
  obtain a b where r: "getMonthRangeISO tz now = (a, b)"
    by (cases "getMonthRangeISO tz now")
  let ?in = "filter (\<lambda>t. tdate t \<ge> a \<and> tdate t \<le> b) (transactions st)"
  let ?abs = "\<lambda>t. \<bar>amount t\<bar>"
  have 1: "map (\<lambda>x. amount (fst x)) (filter (\<lambda>x. kind (fst x) = Income) (month_rows st a b))
     = map amount (filter (\<lambda>t. kind t = Income) ?in)"
    using month_rows_map [of amount "\<lambda>t c. kind t = Income" st a b] by simp
  have 2: "map (\<lambda>x. \<bar>amount (fst x)\<bar>) (filter (\<lambda>x. kind (fst x) = Expense) (month_rows st a b))
     = map ?abs (filter (\<lambda>t. kind t = Expense) ?in)"
    using month_rows_map [of ?abs "\<lambda>t c. kind t = Expense" st a b] by simp
  have 3: "map (\<lambda>x. \<bar>amount (fst x)\<bar>)
             (filter (\<lambda>x. kind (fst x) = Expense \<and> snd x = Some 1) (month_rows st a b))
     = map ?abs (filter (\<lambda>t. kind t = Expense \<and> cat_fixed st t = Some 1) ?in)"
    using month_rows_map [of ?abs "\<lambda>t c. kind t = Expense \<and> c = Some 1" st a b] by simp
  have 4: "map (\<lambda>x. \<bar>amount (fst x)\<bar>)
             (filter (\<lambda>x. kind (fst x) = Expense \<and> snd x \<noteq> Some 1) (month_rows st a b))
     = map ?abs (filter (\<lambda>t. kind t = Expense \<and> cat_fixed st t \<noteq> Some 1) ?in)"
    using month_rows_map [of ?abs "\<lambda>t c. kind t = Expense \<and> c \<noteq> Some 1" st a b] by simp
  show ?thesis
    unfolding monthSummary_def month_transactions_def r
    by (simp only: summary_loop_sums prod.case Let_def 1 2 3 4)
qed




lemma cat_fixed_transactions_update [simp]:
  "cat_fixed (st\<lparr>transactions := x\<rparr>) t = cat_fixed st t"
  by (simp add: cat_fixed_def split: option.splits)

lemma getSetting_transactions_update [simp]:
  "getSetting (st\<lparr>transactions := x\<rparr>) k d = getSetting st k d"
  by (simp add: getSetting_def)

lemma month_transactions_append:
  "month_transactions tz now (st\<lparr>transactions := transactions st @ [t]\<rparr>)
   = month_transactions tz now st
     @ filter (\<lambda>t. tdate t \<ge> fst (getMonthRangeISO tz now)
                 \<and> tdate t \<le> snd (getMonthRangeISO tz now)) [t]"
  by (simp add: month_transactions_def split: prod.splits)

subsection \<open>Evaluation at the examples\<close>

text \<open>
  The scenario of the specification, in Sao Paulo in the middle of November 2026, the
  same month with a planned fixed budget of 6000 and of -500, and a month of three
  expenses in cents.
\<close>

lemmas calendar_defs = new_Date_time_def new_Date_def
      getFullYear_def getMonth_def LocalTime_def msPerDay_def civil_from_days_def
      days_from_civil_def year_of_era_def day_of_year_def month_from_march_def
lemmas format_defs = toISOString_def padStart_def digits.simps digit_char_def
lemmas decimal_defs = decimal_js_def Number_decimal_def parseFloat_decimal_def parseInt_decimal_def decimal_prefix_def split_sign_def
  is_space_def is_digit_def digits_value_def trim_def

text \<open>The calendar on a few known days, leap days among them.\<close>

lemma calendar_examples:
  "civil_from_days 0 = (1970, 1, 1)"
  "civil_from_days (- 1) = (1969, 12, 31)"
  "civil_from_days 19782 = (2024, 2, 29)"
  "civil_from_days 11016 = (2000, 2, 29)"
  "civil_from_days (- 25508) = (1900, 3, 1)"
  "days_from_civil 1970 1 1 = 0"
  "days_from_civil 2024 2 29 = 19782"
  "days_from_civil 2026 11 3 = 20760"
  "days_from_civil 1900 3 1 = - 25508"
  by (simp_all add: calendar_defs)

lemma getMonthRangeISO_unfold:
  "getMonthRangeISO tz d =
     (take 10 (toISOString (new_Date tz (getFullYear tz d) (getMonth tz d) 1)),
      take 10 (toISOString (new_Date tz (getFullYear tz d) (getMonth tz d + 1) 0)))"
  by (simp add: getMonthRangeISO_def Let_def)

lemma sao_paulo_year_month:
  "getFullYear 180 (noon_15_nov_2026 180) = 2026" "getMonth 180 (noon_15_nov_2026 180) = 10"
  by (simp_all add: noon_15_nov_2026_def calendar_defs)

lemma sao_paulo_range:
  "getMonthRangeISO 180 (noon_15_nov_2026 180) = (''2026-11-01'', ''2026-11-30'')"
  by (simp add: getMonthRangeISO_unfold sao_paulo_year_month)
     (simp add: calendar_defs format_defs)

text \<open>West of Greenwich the range is the calendar month, in December and February too.\<close>

lemma month_range_examples:
  "getMonthRangeISO 180 (new_Date_time 180 2026 11 31 23 59) = (''2026-12-01'', ''2026-12-31'')"
  "getMonthRangeISO 0 (new_Date_time 0 2024 1 10 0 0) = (''2024-02-01'', ''2024-02-29'')"
  "getMonthRangeISO 300 (new_Date_time 300 2025 1 28 23 30) = (''2025-02-01'', ''2025-02-28'')"
  by (simp_all add: getMonthRangeISO_unfold calendar_defs format_defs)

lemma scenario_month:
  "month_transactions 180 (noon_15_nov_2026 180) scenario = transactions scenario"
  "month_transactions 180 (noon_15_nov_2026 180) overspent = transactions scenario"
  "month_transactions 180 (noon_15_nov_2026 180) negative_target = transactions scenario"
  "month_transactions 180 (noon_15_nov_2026 180) cents = transactions cents"
  by (simp_all add: month_transactions_def sao_paulo_range overspent_def negative_target_def
        scenario_def cents_def)

lemma fl_decimal_js: "fl decimal_js = round53"
  by (simp add: decimal_js_def)


lemma parseFloat_examples:
  "parseFloat decimal_js ''1200'' = Num 1200" "parseFloat decimal_js ''6000'' = Num 6000"
  "parseFloat decimal_js ''abc'' = NaN" "parseFloat decimal_js ''0'' = Num 0"
  "parseFloat decimal_js ''-500'' = Num (- 500)" "parseFloat decimal_js ''1200,50'' = Num 1200"
  "parseFloat decimal_js ''12abc'' = Num 12"
  "parseFloat decimal_js '' 1200.50'' = Num 1200.5"
  by (simp_all add: decimal_defs round53_binades round_even_def)

lemma scenario_summary:
  "monthSummary decimal_js 180 (noon_15_nov_2026 180) scenario =
     \<lparr> income = 5000, expense = 1500, savings = 3500, Y = 1200, fixedSpent = 1200,
       variableSpent = 300, variableBudget = 3800, variableRemaining = 3500 \<rparr>"
  by (simp add: monthSummary_fields scenario_month parseFloat_examples Let_def fl_decimal_js)
     (simp add: scenario_def seeded_def cat_fixed_def getSetting_def parseFloat_examples or_zero_def)

lemma overspent_summary:
  "monthSummary decimal_js 180 (noon_15_nov_2026 180) overspent =
     \<lparr> income = 5000, expense = 1500, savings = 3500, Y = 6000, fixedSpent = 1200,
       variableSpent = 300, variableBudget = 0, variableRemaining = - 300 \<rparr>"
  by (simp add: monthSummary_fields scenario_month parseFloat_examples Let_def fl_decimal_js)
     (simp add: overspent_def scenario_def seeded_def cat_fixed_def getSetting_def
        parseFloat_examples or_zero_def)

lemma negative_target_summary:
  "monthSummary decimal_js 180 (noon_15_nov_2026 180) negative_target =
     \<lparr> income = 5000, expense = 1500, savings = 3500, Y = - 500, fixedSpent = 1200,
       variableSpent = 300, variableBudget = 5500, variableRemaining = 5200 \<rparr>"
  by (simp add: monthSummary_fields scenario_month parseFloat_examples Let_def fl_decimal_js)
     (simp add: negative_target_def scenario_def seeded_def cat_fixed_def getSetting_def
        parseFloat_examples or_zero_def)





text \<open>
  C2 (variable budget).  Whatever the income and the setting Y, variableBudget is
  max(0, income - Y), with the engine's subtraction, and so never negative, and
  variableRemaining is the engine's difference variableBudget - variableSpent, with no
  clamping; both are within one rounding of the exact values.  In the example a Y above
  the income gives a budget of 0 and a remainder of -300, and a negative Y a budget above
  the income.
\<close>

theorem monthSummary_variable_budget:
  "(let s = monthSummary js tz now st
    in variableBudget s = max 0 (fl js (income s - Y s))
     \<and> 0 \<le> variableBudget s
     \<and> variableRemaining s = fl js (variableBudget s - variableSpent s)
     \<and> ((\<forall>x. \<bar>fl js x - x\<bar> \<le> u * \<bar>x\<bar>) \<longrightarrow>
          \<bar>variableBudget s - max 0 (income s - Y s)\<bar> \<le> u * \<bar>income s - Y s\<bar>
        \<and> \<bar>variableRemaining s - (variableBudget s - variableSpent s)\<bar>
            \<le> u * \<bar>variableBudget s - variableSpent s\<bar>))"
proof -
  have m: "\<bar>max 0 a - max 0 b\<bar> \<le> \<bar>a - b\<bar>" for a b :: real
    by (simp add: max_def)
  have "\<bar>max 0 (fl js d) - max 0 d\<bar> \<le> u * \<bar>d\<bar>" if "\<forall>x. \<bar>fl js x - x\<bar> \<le> u * \<bar>x\<bar>" for d
  proof -
    from that have "\<bar>fl js d - d\<bar> \<le> u * \<bar>d\<bar>" by blast
    with m [of "fl js d" d] show ?thesis by linarith
  qed
  then show ?thesis
    by (simp add: monthSummary_fields Let_def)
qed

theorem monthSummary_variable_budget_witness:
  "variableBudget (monthSummary decimal_js 180 (noon_15_nov_2026 180) overspent) = 0
   \<and> variableRemaining (monthSummary decimal_js 180 (noon_15_nov_2026 180) overspent) = - 300
   \<and> variableBudget (monthSummary decimal_js 180 (noon_15_nov_2026 180) negative_target) = 5500
   \<and> \<bar>variableBudget (monthSummary decimal_js 180 (noon_15_nov_2026 180) negative_target)
        - max 0 (income (monthSummary decimal_js 180 (noon_15_nov_2026 180) negative_target)
                  - Y (monthSummary decimal_js 180 (noon_15_nov_2026 180) negative_target))\<bar>
       \<le> 1 / 2 ^ 53 * 5500"
proof -
  let ?s = "monthSummary decimal_js 180 (noon_15_nov_2026 180) overspent"
  let ?t = "monthSummary decimal_js 180 (noon_15_nov_2026 180) negative_target"
  have r: "\<forall>x. \<bar>fl decimal_js x - x\<bar> \<le> 1 / 2 ^ 53 * \<bar>x\<bar>"
    using round53_error by (simp add: fl_decimal_js)
  have i: "income ?s = 5000" and y: "Y ?s = 6000" and v: "variableSpent ?s = 300"
    by (simp_all add: overspent_summary)
  have i': "income ?t = 5000" and y': "Y ?t = - 500"
    by (simp_all add: negative_target_summary)
  from monthSummary_variable_budget [of decimal_js 180 "noon_15_nov_2026 180" overspent "1 / 2 ^ 53"]
  have "variableBudget ?s = max 0 (fl decimal_js (income ?s - Y ?s))
      \<and> variableRemaining ?s = fl decimal_js (variableBudget ?s - variableSpent ?s)"
    unfolding Let_def by blast
  moreover
  from monthSummary_variable_budget [of decimal_js 180 "noon_15_nov_2026 180" negative_target
      "1 / 2 ^ 53"] r
  have "variableBudget ?t = max 0 (fl decimal_js (income ?t - Y ?t))
      \<and> \<bar>variableBudget ?t - max 0 (income ?t - Y ?t)\<bar> \<le> 1 / 2 ^ 53 * \<bar>income ?t - Y ?t\<bar>"
    unfolding Let_def by blast
  ultimately show ?thesis
    using i y v i' y' by (simp add: fl_decimal_js)
qed

text \<open>
  C10 (transfers).  Adding a transaction of kind transfer, whatever its date, leaves
  every field of the summary as it was.
\<close>

theorem monthSummary_ignores_transfer:
  "kind t = Transfer \<Longrightarrow>
   monthSummary js tz now (st\<lparr>transactions := transactions st @ [t]\<rparr>) = monthSummary js tz now st"
  by (simp add: monthSummary_fields month_transactions_append Let_def)

theorem monthSummary_ignores_transfer_witness:
  "monthSummary decimal_js 180 (noon_15_nov_2026 180)
       (scenario\<lparr>transactions := transactions scenario @
          [\<lparr> t_id = 4, tdate = ''2026-11-20'', description = ''Poupanca'', amount = 700,
             kind = Transfer, account_id = 1, category_id = None, t_note = [] \<rparr>]\<rparr>)
     = \<lparr> income = 5000, expense = 1500, savings = 3500, Y = 1200, fixedSpent = 1200,
         variableSpent = 300, variableBudget = 3800, variableRemaining = 3500 \<rparr>"
proof -
  have k: "kind \<lparr> t_id = 4, tdate = ''2026-11-20'', description = ''Poupanca'', amount = 700,
            kind = Transfer, account_id = 1, category_id = None, t_note = [] \<rparr> = Transfer"
    by simp
  from monthSummary_ignores_transfer [OF k, of decimal_js 180 "noon_15_nov_2026 180" scenario]
  show ?thesis
    by (simp only: scenario_summary)
qed

section \<open>Reading the setting\<close>














lemma or_zero_Num [simp]: "or_zero (Num x) = x"
  by (simp add: or_zero_def)

lemma or_zero_NaN [simp]: "or_zero NaN = 0"
  by (simp add: or_zero_def)





section \<open>The recurrence generator\<close>

lemma insert_transaction_ok:
  "insert_transaction True st d desc (Num x) k acc cat n =
     Inr (st\<lparr> transactions := transactions st @
               [\<lparr> t_id = Suc (transactions_seq st), tdate = d, description = desc, amount = x,
                  kind = k, account_id = acc, category_id = cat, t_note = n \<rparr>],
              transactions_seq := Suc (transactions_seq st) \<rparr>)"
  by (simp add: insert_transaction_def)

lemma insert_transaction_io_fails:
  "insert_transaction False st d desc a k acc cat n = Inl StoreError"
  by (simp add: insert_transaction_def)

lemma neg_abs_Num: "neg (Math_abs (Num x)) = Num (- \<bar>x\<bar>)"
  by (simp add: neg_def Math_abs_def)

lemma generate_loop_all:
  "\<forall>j < length items. io (k + j) \<Longrightarrow>
   generate_loop io k a y m items st =
     (None, st\<lparr> transactions := transactions st @ generated a y m (transactions_seq st) items,
                 transactions_seq := transactions_seq st + length items \<rparr>)"
proof (induction items arbitrary: k st)
  case Nil
  show ?case by (simp add: generated_def)
next
  case (Cons it items)
  from Cons.prems have here: "io k" by force
  from Cons.prems have rest: "\<forall>j < length items. io (Suc k + j)" by force
  show ?case
    using here Cons.IH [OF rest]
    by (simp add: insert_transaction_ok neg_abs_Num generated_def)
qed

lemma generate_loop_fails:
  "j < length items \<Longrightarrow> \<forall>i < j. io (k + i) \<Longrightarrow> \<not> io (k + j) \<Longrightarrow>
   generate_loop io k a y m items st =
     (Some StoreError,
      st\<lparr> transactions := transactions st @ generated a y m (transactions_seq st) (take j items),
          transactions_seq := transactions_seq st + j \<rparr>)"
proof (induction items arbitrary: k st j)
  case Nil
  then show ?case by simp
next
  case (Cons it items)
  show ?case
  proof (cases j)
    case 0
    with Cons.prems have "\<not> io k" by simp
    then show ?thesis
      by (simp add: 0 insert_transaction_io_fails generated_def)
  next
    case (Suc j')
    from Cons.prems Suc have here: "io k" by force
    from Cons.prems Suc have len: "j' < length items" by simp
    from Cons.prems Suc have before: "\<forall>i < j'. io (Suc k + i)" by force
    from Cons.prems Suc have fails: "\<not> io (Suc k + j')" by simp
    show ?thesis
      using here Cons.IH [OF len before fails]
      by (simp add: Suc insert_transaction_ok neg_abs_Num generated_def)
  qed
qed

lemma generate_loop_sign:
  "t \<in> set (transactions (snd (generate_loop io k a y m items st))) \<Longrightarrow>
   t \<in> set (transactions st) \<or> sign_ok t"
proof (induction items arbitrary: k st)
  case Nil
  then show ?case by simp
next
  case (Cons it items)
  show ?case
  proof (cases "io k")
    case False
    with Cons.prems show ?thesis
      by (simp add: insert_transaction_io_fails)
  next
    case True
    let ?st' = "st\<lparr> transactions := transactions st @
               [\<lparr> t_id = Suc (transactions_seq st),
                  tdate = String_int y @ ''-'' @ padStart 2 CHR ''0'' (String_int m) @ ''-''
                        @ padStart 2 CHR ''0'' (String_int (f_day it)),
                  description = f_name it, amount = - \<bar>f_amount it\<bar>,
                  kind = Expense, account_id = a, category_id = f_category_id it, t_note = ''fixo'' \<rparr>],
              transactions_seq := Suc (transactions_seq st) \<rparr>"
    from Cons.prems True
    have "t \<in> set (transactions (snd (generate_loop io (Suc k) a y m items ?st')))"
      by (simp add: insert_transaction_ok neg_abs_Num)
    from Cons.IH [OF this] show ?thesis
      by (auto simp: sign_ok_def)
  qed
qed

lemma account_id_by_name_transactions [simp]:
  "account_id_by_name (st\<lparr>transactions := ts, transactions_seq := n\<rparr>) name = account_id_by_name st name"
  by (simp add: account_id_by_name_def)

lemma length_generated [simp]: "length (generated a y m n items) = length items"
  by (simp add: generated_def)

lemma nth_generated:
  "i < length items \<Longrightarrow>
   generated a y m n items ! i =
     \<lparr> t_id = Suc (n + i),
       tdate = String_int y @ ''-'' @ padStart 2 CHR ''0'' (String_int m) @ ''-''
                 @ padStart 2 CHR ''0'' (String_int (f_day (items ! i))),
       description = f_name (items ! i), amount = - \<bar>f_amount (items ! i)\<bar>, kind = Expense,
       account_id = a, category_id = f_category_id (items ! i), t_note = ''fixo'' \<rparr>"
  by (simp add: generated_def nth_enumerate_eq)

lemma generated_forget_id:
  "map (\<lambda>t. t\<lparr>t_id := c\<rparr>) (generated a y m n items) =
   map (\<lambda>t. t\<lparr>t_id := c\<rparr>) (generated a y m n' items)"
  by (induction items arbitrary: n n') (simp_all add: generated_def)

lemma generateMonth_all:
  assumes "account_id_by_name st default_account = Some a" and "\<forall>k < length items. io k"
  shows "generateMonth io tz now items st =
     (Alerted ''OK'' msg_gerados,
      st\<lparr> transactions := transactions st
              @ generated a (getFullYear tz now) (getMonth tz now + 1) (transactions_seq st) items,
          transactions_seq := transactions_seq st + length items \<rparr>)"
proof -
  from assms(2) have "\<forall>j < length items. io (0 + j)" by simp
  from generate_loop_all [OF this] assms(1) show ?thesis
    by (simp add: generateMonth_def Let_def)
qed

text \<open>A pass over two templates on the freshly seeded store, in November 2026.\<close>

lemma seeded_account: "account_id_by_name seeded default_account = Some 1"
  by (simp add: account_id_by_name_def seeded_def)

lemma seeded_empty: "transactions seeded = []" "transactions_seq seeded = 0"
  by (simp_all add: seeded_def)

lemma generated_first:
  "generated 1 2026 11 0 rent_and_net = [rent_row 1, net_row 2]"
  "generated 1 2026 11 0 (take 1 rent_and_net) = [rent_row 1]"
  by (simp_all add: generated_def rent_and_net_def rent_row_def net_row_def String_int_def
        padStart_def digits.simps digit_char_def numeral_2_eq_2)

lemma generated_second:
  "generated 1 2026 11 2 rent_and_net = [rent_row 3, net_row 4]"
  by (simp add: generated_def rent_and_net_def rent_row_def net_row_def String_int_def
        padStart_def digits.simps digit_char_def)

lemma rent_and_net_length: "length rent_and_net = 2"
  by (simp add: rent_and_net_def)

lemmas november_2026 =
  sao_paulo_year_month seeded_empty rent_and_net_length generated_first generated_second
  append_Nil append_Cons add_0 snd_conv

lemma eleven: "(10::int) + 1 = 11"
  by simp

lemma generateMonth_seeded:
  "transactions (snd (generateMonth always 180 (noon_15_nov_2026 180) rent_and_net seeded)) =
     [rent_row 1, net_row 2]"
proof -
  have io: "\<forall>k < length rent_and_net. always k"
    by (simp add: always_def)
  have "transactions (snd (generateMonth always 180 (noon_15_nov_2026 180) rent_and_net seeded)) =
     transactions seeded
       @ generated 1 (getFullYear 180 (noon_15_nov_2026 180))
           (getMonth 180 (noon_15_nov_2026 180) + 1) (transactions_seq seeded) rent_and_net"
    by (simp add: generateMonth_all [OF seeded_account io])
  then show ?thesis
    by (simp only: november_2026 eleven)
qed

text \<open>
  C3 (recurrence expansion), with the note the code writes.  When the default account
  exists and the engine carries out every insert, one pass over N templates reports
  success and appends exactly N transactions, the i-th of them with amount
  -abs(template.amount), kind expense, the template's category and name, the date made of
  the current year, the current month and the template's day, the default account's id
  and the note "fixo".
\<close>

theorem generateMonth_expansion:
  "account_id_by_name st default_account = Some a \<Longrightarrow> \<forall>k < length items. io k \<Longrightarrow>
   (let y = getFullYear tz now;
        m = getMonth tz now + 1;
        n = transactions_seq st;
        new = generated a y m n items
    in generateMonth io tz now items st =
         (Alerted ''OK'' msg_gerados,
          st\<lparr> transactions := transactions st @ new, transactions_seq := n + length items \<rparr>)
     \<and> length new = length items
     \<and> (\<forall>i < length items.
           new ! i =
             \<lparr> t_id = Suc (n + i),
               tdate = String_int y @ ''-'' @ padStart 2 CHR ''0'' (String_int m) @ ''-''
                         @ padStart 2 CHR ''0'' (String_int (f_day (items ! i))),
               description = f_name (items ! i), amount = - \<bar>f_amount (items ! i)\<bar>,
               kind = Expense, account_id = a, category_id = f_category_id (items ! i),
               t_note = ''fixo'' \<rparr>))"
  by (simp add: Let_def generateMonth_all nth_generated)

theorem generateMonth_expansion_witness:
  "generateMonth always 180 (noon_15_nov_2026 180) rent_and_net seeded =
     (Alerted ''OK'' msg_gerados,
      seeded\<lparr> transactions := [rent_row 1, net_row 2], transactions_seq := 2 \<rparr>)"
proof -
  have io: "\<forall>k < length rent_and_net. always k"
    by (simp add: always_def)
  from generateMonth_expansion [OF seeded_account io, of 180 "noon_15_nov_2026 180"]
  have "generateMonth always 180 (noon_15_nov_2026 180) rent_and_net seeded =
     (Alerted ''OK'' msg_gerados,
      seeded\<lparr> transactions := transactions seeded
                 @ generated 1 (getFullYear 180 (noon_15_nov_2026 180))
                     (getMonth 180 (noon_15_nov_2026 180) + 1) (transactions_seq seeded)
                     rent_and_net,
               transactions_seq := transactions_seq seeded + length rent_and_net \<rparr>)"
    unfolding Let_def by (rule conjunct1)
  then show ?thesis
    by (simp only: november_2026 eleven)
qed

text \<open>
  The specification asks for the note "fixed"; the note written is the Portuguese
  "fixo".
\<close>

theorem generateMonth_note_counterexample:
  "\<not> list_all (\<lambda>t. t_note t = ''fixed'')
       (transactions (snd (generateMonth always 180 (noon_15_nov_2026 180) rent_and_net seeded)))"
  by (simp add: generateMonth_seeded rent_row_def)

text \<open>
  C4 (no idempotence).  A second pass in the same month appends N more transactions:
  the store then holds 2N generated rows, and the second N repeat the first N in every
  column but the key.
\<close>

theorem generateMonth_twice:
  "account_id_by_name st default_account = Some a \<Longrightarrow>
   \<forall>k < length items. io k \<Longrightarrow> \<forall>k < length items. io' k \<Longrightarrow>
   getFullYear tz now' = getFullYear tz now \<Longrightarrow> getMonth tz now' = getMonth tz now \<Longrightarrow>
   (let y = getFullYear tz now;
        m = getMonth tz now + 1;
        n = transactions_seq st;
        once = snd (generateMonth io tz now items st);
        twice = snd (generateMonth io' tz now' items once)
    in transactions twice =
         transactions st @ generated a y m n items @ generated a y m (n + length items) items
     \<and> length (transactions twice) = length (transactions st) + 2 * length items
     \<and> map (\<lambda>t. t\<lparr>t_id := 0\<rparr>) (generated a y m (n + length items) items)
         = map (\<lambda>t. t\<lparr>t_id := 0\<rparr>) (generated a y m n items))"
proof -
  assume acc: "account_id_by_name st default_account = Some a"
    and io: "\<forall>k < length items. io k" and io': "\<forall>k < length items. io' k"
    and y: "getFullYear tz now' = getFullYear tz now" and m: "getMonth tz now' = getMonth tz now"
  let ?y = "getFullYear tz now" and ?m = "getMonth tz now + 1" and ?n = "transactions_seq st"
  let ?once = "st\<lparr> transactions := transactions st @ generated a ?y ?m ?n items,
                     transactions_seq := ?n + length items \<rparr>"
  have 1: "snd (generateMonth io tz now items st) = ?once"
    by (simp add: generateMonth_all [OF acc io])
  have acc': "account_id_by_name ?once default_account = Some a"
    using acc by simp
  have 2: "snd (generateMonth io' tz now' items ?once) =
     ?once\<lparr> transactions := transactions ?once @ generated a ?y ?m (?n + length items) items,
            transactions_seq := ?n + length items + length items \<rparr>"
    by (simp add: generateMonth_all [OF acc' io'] y m)
  show ?thesis
    unfolding Let_def 1 2
    by (simp add: generated_forget_id [of 0 a ?y ?m "?n + length items" items ?n])
qed

theorem generateMonth_twice_witness:
  "transactions (snd (generateMonth always 180 (noon_15_nov_2026 180) rent_and_net
       (snd (generateMonth always 180 (noon_15_nov_2026 180) rent_and_net seeded)))) =
     [rent_row 1, net_row 2, rent_row 3, net_row 4]"
proof -
  have io: "\<forall>k < length rent_and_net. always k"
    by (simp add: always_def)
  from generateMonth_twice [OF seeded_account io io refl refl,
      where tz = 180 and now = "noon_15_nov_2026 180"]
  have "transactions (snd (generateMonth always 180 (noon_15_nov_2026 180) rent_and_net
       (snd (generateMonth always 180 (noon_15_nov_2026 180) rent_and_net seeded)))) =
     transactions seeded
       @ generated 1 (getFullYear 180 (noon_15_nov_2026 180))
           (getMonth 180 (noon_15_nov_2026 180) + 1) (transactions_seq seeded) rent_and_net
       @ generated 1 (getFullYear 180 (noon_15_nov_2026 180))
           (getMonth 180 (noon_15_nov_2026 180) + 1)
           (transactions_seq seeded + length rent_and_net) rent_and_net"
    unfolding Let_def by (rule conjunct1)
  then show ?thesis
    by (simp only: november_2026 eleven)
qed

text \<open>
  C9 (no atomicity).  If the engine fails on the insert at position k (counted from 0)
  after carrying out those before it, the pass ends with the store error, the
  transactions of the first k templates stay in the store and nothing is inserted for
  the templates from position k on.
\<close>

theorem generateMonth_partial_failure:
  "account_id_by_name st default_account = Some a \<Longrightarrow>
   k < length items \<Longrightarrow> \<forall>j < k. io j \<Longrightarrow> \<not> io k \<Longrightarrow>
   generateMonth io tz now items st =
     (Threw StoreError,
      st\<lparr> transactions := transactions st
              @ generated a (getFullYear tz now) (getMonth tz now + 1) (transactions_seq st)
                  (take k items),
          transactions_seq := transactions_seq st + k \<rparr>)"
proof -
  assume acc: "account_id_by_name st default_account = Some a"
    and k: "k < length items" and before: "\<forall>j < k. io j" and fails: "\<not> io k"
  from before have b: "\<forall>i < k. io (0 + i)" by simp
  from fails have f: "\<not> io (0 + k)" by simp
  from generate_loop_fails [OF k b f] acc show ?thesis
    by (simp add: generateMonth_def Let_def)
qed

theorem generateMonth_partial_failure_witness:
  "generateMonth second_fails 180 (noon_15_nov_2026 180) rent_and_net seeded =
     (Threw StoreError, seeded\<lparr> transactions := [rent_row 1], transactions_seq := 1 \<rparr>)"
proof -
  have k: "1 < length rent_and_net" by (simp add: rent_and_net_def)
  have before: "\<forall>j < 1. second_fails j" by (simp add: second_fails_def)
  have fails: "\<not> second_fails 1" by (simp add: second_fails_def)
  from generateMonth_partial_failure [OF seeded_account k before fails, of 180 "noon_15_nov_2026 180"]
  show ?thesis
    by (simp only: november_2026 eleven)
qed

section \<open>The sign convention\<close>

text \<open>The writers at the examples.\<close>

lemma today_sao_paulo: "take 10 (toISOString (noon_15_nov_2026 180)) = ''2026-11-15''"
  by (simp add: noon_15_nov_2026_def calendar_defs format_defs)

lemma input_amount_examples:
  "input_amount decimal_js ''abc'' = NaN"
  "input_amount decimal_js ''0,00'' = Num 0"
  "input_amount decimal_js ''0'' = Num 0"
  "input_amount decimal_js ''23,5'' = Num 23.5"
  by (simp_all add: input_amount_def decimal_defs round53_binades round_even_def)

lemma Number_examples:
  "Number decimal_js ''0'' = Num 0"
  "Number decimal_js ''5200.50'' = Num 5200.5"
  by (simp_all add: decimal_defs round53_binades round_even_def)

lemma trim_examples: "trim ''  '' = []" "trim ''Luz'' = ''Luz''" "trim ''Uber'' = ''Uber''"
  "trim ''Mercado'' = ''Mercado''" "trim ''Salario'' = ''Salario''"
  by (simp_all add: trim_def is_space_def)

lemma scenario_lookups:
  "account_id_by_name scenario default_account = Some 1"
  "category_id_by_name scenario ''Mercado'' = Some 4"
  "category_id_by_name seeded ''Transporte'' = Some 5"
  by (simp_all add: account_id_by_name_def category_id_by_name_def scenario_def seeded_def
        default_account_def)

lemma QuickAdd_uber:
  "QuickAdd_submit True decimal_js (noon_15_nov_2026 180) ''Uber'' ''23,5'' Expense ''Transporte'' seeded
     = (Alerted ''OK'' msg_adicionado, seeded\<lparr> transactions := [uber_row], transactions_seq := 1 \<rparr>)"
  by (simp add: QuickAdd_submit_def input_amount_examples trim_examples truthy_def
        seeded_account scenario_lookups today_sao_paulo insert_transaction_ok neg_def Math_abs_def
        seeded_empty uber_row_def)

lemma saveEdit_zero:
  "Historico_saveEdit True decimal_js zero_edit scenario =
     (Returned, scenario\<lparr> transactions :=
        [\<lparr> t_id = 1, tdate = ''2026-11-05'', description = ''Salario'', amount = 5000,
            kind = Income, account_id = 1, category_id = Some 7, t_note = [] \<rparr>,
         \<lparr> t_id = 2, tdate = ''2026-11-10'', description = ''Aluguel'', amount = - 1200,
            kind = Expense, account_id = 1, category_id = Some 1, t_note = ''fixo'' \<rparr>,
         \<lparr> t_id = 3, tdate = ''2026-11-12'', description = ''Mercado'', amount = 0,
            kind = Expense, account_id = 1, category_id = Some 4, t_note = [] \<rparr>] \<rparr>)"
  by (simp add: Historico_saveEdit_def updateTransaction_def update_transaction_def zero_edit_def
        Number_or_zero_def Number_examples trim_examples scenario_lookups neg_def Math_abs_def)
     (simp add: scenario_def)

lemma saveEdit_raise:
  "transactions (snd (Historico_saveEdit True decimal_js raise_edit scenario)) =
     [raised_row,
      \<lparr> t_id = 2, tdate = ''2026-11-10'', description = ''Aluguel'', amount = - 1200,
         kind = Expense, account_id = 1, category_id = Some 1, t_note = ''fixo'' \<rparr>,
      \<lparr> t_id = 3, tdate = ''2026-11-12'', description = ''Mercado'', amount = - 300,
         kind = Expense, account_id = 1, category_id = Some 4, t_note = [] \<rparr>]"
  by (simp add: Historico_saveEdit_def updateTransaction_def update_transaction_def raise_edit_def
        Number_or_zero_def Number_examples trim_examples scenario_lookups neg_def Math_abs_def)
     (simp add: scenario_def raised_row_def)

lemma QuickAdd_submit_sign:
  "t \<in> set (transactions (snd (QuickAdd_submit io js now desc val k cat st))) \<Longrightarrow>
   t \<in> set (transactions st) \<or> sign_ok t"
  by (cases "input_amount js val"; cases k)
     (auto simp: QuickAdd_submit_def Let_def insert_transaction_def sign_ok_def neg_def
        Math_abs_def split: if_splits option.splits)

lemma update_transaction_sign:
  assumes "update_transaction io st i d desc
             (if k = Expense then neg (Math_abs n) else Math_abs n) k acc cat = Inr st'"
    and "t \<in> set (transactions st')"
  shows "t \<in> set (transactions st) \<or> sign_ok t"
  using assms
  by (cases n; cases k)
     (auto simp: update_transaction_def sign_ok_def neg_def Math_abs_def split: if_splits)

lemma Historico_saveEdit_sign:
  "t \<in> set (transactions (snd (Historico_saveEdit io js e st))) \<Longrightarrow>
   t \<in> set (transactions st) \<or> sign_ok t"
proof (cases "e_description e = [] \<or> e_tdate e = []")
  case True
  assume "t \<in> set (transactions (snd (Historico_saveEdit io js e st)))"
  with True show ?thesis by (simp add: Historico_saveEdit_def)
next
  case False
  assume t: "t \<in> set (transactions (snd (Historico_saveEdit io js e st)))"
  show ?thesis
  proof (cases "account_id_by_name st default_account")
    case None
    with t False show ?thesis
      by (simp add: Historico_saveEdit_def updateTransaction_def Let_def)
  next
    case (Some acc)
    let ?cat = "if e_category e = [] then None else category_id_by_name st (e_category e)"
    let ?upd = "update_transaction io st (e_id e) (e_tdate e) (trim (e_description e))
        (if e_kind e = Expense then neg (Math_abs (Number_or_zero js (e_amount e)))
         else Math_abs (Number_or_zero js (e_amount e))) (e_kind e) acc ?cat"
    have eq: "Historico_saveEdit io js e st =
        (case ?upd of Inl err \<Rightarrow> (Threw err, st) | Inr st' \<Rightarrow> (Returned, st'))"
      using False Some by (simp add: Historico_saveEdit_def updateTransaction_def Let_def)
    show ?thesis
    proof (cases ?upd)
      case (Inl err)
      with t eq show ?thesis by simp
    next
      case (Inr st')
      with t eq have "t \<in> set (transactions st')" by simp
      with update_transaction_sign [OF Inr] show ?thesis by simp
    qed
  qed
qed

lemma generateMonth_sign:
  "t \<in> set (transactions (snd (generateMonth io tz now items st))) \<Longrightarrow>
   t \<in> set (transactions st) \<or> sign_ok t"
proof (cases "account_id_by_name st default_account")
  case None
  assume "t \<in> set (transactions (snd (generateMonth io tz now items st)))"
  with None show ?thesis by (simp add: generateMonth_def)
next
  case (Some a)
  assume t: "t \<in> set (transactions (snd (generateMonth io tz now items st)))"
  have "snd (generateMonth io tz now items st) =
      snd (generate_loop io 0 a (getFullYear tz now) (getMonth tz now + 1) items st)"
    using Some by (simp add: generateMonth_def Let_def split: prod.splits option.splits)
  with t generate_loop_sign show ?thesis by simp
qed

text \<open>
  C7 (sign invariant).  Whatever quick-add, the edit of a transaction or the recurrence
  generator writes (every row of the resulting table that was not there before) has an
  amount of at most 0 when its kind is expense and of at least 0 when it is income.
\<close>

theorem writers_keep_sign:
  "(\<forall>t \<in> set (transactions (snd (QuickAdd_submit io js now desc val k cat st)))
            - set (transactions st). sign_ok t)
   \<and> (\<forall>t \<in> set (transactions (snd (Historico_saveEdit io js e st)))
            - set (transactions st). sign_ok t)
   \<and> (\<forall>t \<in> set (transactions (snd (generateMonth gio tz now items st)))
            - set (transactions st). sign_ok t)"
  using QuickAdd_submit_sign Historico_saveEdit_sign generateMonth_sign by blast

theorem writers_keep_sign_witness:
  "sign_ok uber_row \<and> sign_ok raised_row \<and> sign_ok (net_row 2)"
proof -
  have 1: "uber_row \<in> set (transactions (snd (QuickAdd_submit True decimal_js
        (noon_15_nov_2026 180) ''Uber'' ''23,5'' Expense ''Transporte'' seeded))) - set (transactions seeded)"
    by (simp add: QuickAdd_uber seeded_empty)
  have 2: "raised_row \<in> set (transactions (snd (Historico_saveEdit True decimal_js raise_edit scenario)))
        - set (transactions scenario)"
    by (simp add: saveEdit_raise) (simp add: scenario_def raised_row_def)
  have 3: "net_row 2 \<in> set (transactions (snd (generateMonth always 180 (noon_15_nov_2026 180)
        rent_and_net seeded))) - set (transactions seeded)"
    by (simp add: generateMonth_seeded seeded_empty)
  from writers_keep_sign [where io = True and js = decimal_js and now = "noon_15_nov_2026 180"
        and desc = "''Uber''" and val = "''23,5''" and k = Expense and cat = "''Transporte''"
        and st = seeded and gio = always and tz = 180 and items = rent_and_net]
    writers_keep_sign [where io = True and js = decimal_js and e = raise_edit and st = scenario]
    1 2 3
  show ?thesis by blast
qed

section \<open>Validation of user input\<close>

text \<open>
  C6 (validation), as the code has it.  Quick-add shows its notice and leaves the store
  as it is when the description is empty or blank, or the amount is no number or zero.
  Adding a fixed item does so when the name is empty or blank, the amount or the day is
  left empty, or the amount is a number not above zero.  The edit of a transaction does
  so when the description or the date is empty; it does not look at the amount, and with
  both filled in it goes on to the update.
\<close>

theorem validation_aborts:
  "(trim desc = [] \<or> input_amount js val = NaN \<or> input_amount js val = Num 0 \<longrightarrow>
      QuickAdd_submit io js now desc val k cat st = (Alerted attention msg_desc_valor, st))
   \<and> (trim name = [] \<or> val = [] \<or> day = [] \<longrightarrow>
      Fixos_add io js name val day cat st = (Alerted attention ''Preencha nome, valor e dia.'', st))
   \<and> (trim name \<noteq> [] \<and> val \<noteq> [] \<and> day \<noteq> [] \<and> input_amount js val = Num x \<and> x \<le> 0 \<longrightarrow>
      Fixos_add io js name val day cat st = (Alerted attention ''Valor deve ser > 0.'', st))
   \<and> (e_description e = [] \<or> e_tdate e = [] \<longrightarrow>
      Historico_saveEdit io js e st = (Alerted attention msg_data_desc, st))
   \<and> (e_description e \<noteq> [] \<and> e_tdate e \<noteq> [] \<longrightarrow>
      fst (Historico_saveEdit io js e st) \<in> {Returned, Threw TypeError, Threw StoreError})"
proof -
  have "fst (Historico_saveEdit io js e st) \<in> {Returned, Threw TypeError, Threw StoreError}"
    if "e_description e \<noteq> []" "e_tdate e \<noteq> []"
  proof -
    obtain r where r: "updateTransaction io st (e_id e) (e_tdate e) (trim (e_description e))
        (if e_kind e = Expense then neg (Math_abs (Number_or_zero js (e_amount e)))
         else Math_abs (Number_or_zero js (e_amount e))) (e_kind e)
        (if e_category e = [] then None else Some (e_category e)) = r"
      by simp
    show ?thesis
    proof (cases r)
      case (Inl err)
      with r that show ?thesis
        by (cases err) (simp_all add: Historico_saveEdit_def Let_def)
    next
      case (Inr st')
      with r that show ?thesis
        by (simp add: Historico_saveEdit_def Let_def)
    qed
  qed
  then show ?thesis
    by (auto simp: QuickAdd_submit_def Fixos_add_def Historico_saveEdit_def Let_def truthy_def
        le_zero_def)
qed

theorem validation_aborts_witness:
  "QuickAdd_submit True decimal_js (noon_15_nov_2026 180) ''  '' ''23,5'' Expense ''Transporte'' seeded
     = (Alerted attention msg_desc_valor, seeded)
   \<and> QuickAdd_submit True decimal_js (noon_15_nov_2026 180) ''Uber'' ''abc'' Expense ''Transporte'' seeded
     = (Alerted attention msg_desc_valor, seeded)
   \<and> QuickAdd_submit True decimal_js (noon_15_nov_2026 180) ''Uber'' ''0,00'' Expense ''Transporte'' seeded
     = (Alerted attention msg_desc_valor, seeded)
   \<and> Fixos_add True decimal_js ''Luz'' ''150'' [] ''Energia'' seeded
     = (Alerted attention ''Preencha nome, valor e dia.'', seeded)
   \<and> Fixos_add True decimal_js ''Luz'' ''0'' ''5'' ''Energia'' seeded
     = (Alerted attention ''Valor deve ser > 0.'', seeded)
   \<and> Historico_saveEdit True decimal_js blank_edit scenario
     = (Alerted attention msg_data_desc, scenario)"
proof -
  have blank: "e_description blank_edit = []"
    by (simp add: blank_edit_def)
  show ?thesis
    using validation_aborts [where desc = "''  ''" and js = decimal_js and val = "''23,5''"
        and io = True and now = "noon_15_nov_2026 180" and k = Expense and cat = "''Transporte''"
        and st = seeded]
      validation_aborts [where desc = "''Uber''" and js = decimal_js and val = "''abc''"
        and io = True and now = "noon_15_nov_2026 180" and k = Expense and cat = "''Transporte''"
        and st = seeded]
      validation_aborts [where desc = "''Uber''" and js = decimal_js and val = "''0,00''"
        and io = True and now = "noon_15_nov_2026 180" and k = Expense and cat = "''Transporte''"
        and st = seeded]
      validation_aborts [where name = "''Luz''" and js = decimal_js and val = "''150''"
        and io = True and day = "[]" and cat = "''Energia''" and st = seeded]
      validation_aborts [where name = "''Luz''" and js = decimal_js and val = "''0''"
        and io = True and day = "''5''" and cat = "''Energia''" and st = seeded and x = 0]
      validation_aborts [where e = blank_edit and js = decimal_js and io = True and st = scenario]
    by (simp add: trim_examples input_amount_examples blank)
qed

text \<open>
  The specification has the edit of a transaction refuse a zero amount.  It does not:
  the edit below goes through and the row of -300 is stored as 0.
\<close>

theorem edit_zero_amount_counterexample:
  "fst (Historico_saveEdit True decimal_js zero_edit scenario) = Returned
   \<and> map amount (transactions (snd (Historico_saveEdit True decimal_js zero_edit scenario)))
       = [5000, - 1200, 0]
   \<and> map amount (transactions scenario) = [5000, - 1200, - 300]"
  by (simp add: saveEdit_zero) (simp add: scenario_def)

text \<open>
  An amount that is no number passes the test \<^verbatim>\<open>amount <= 0\<close> of \<^verbatim>\<open>Fixos.add\<close>, since
  no comparison holds of \<open>NaN\<close>: no notice is shown, and it is the engine that refuses the
  row.
\<close>

lemma Fixos_add_not_a_number:
  "Fixos_add True decimal_js ''Luz'' ''abc'' ''5'' ''Energia'' seeded = (Threw StoreError, seeded)"
  by (simp add: Fixos_add_def trim_examples input_amount_examples le_zero_def insert_fixed_item_def)

section \<open>The month range east of Greenwich\<close>

text \<open>
  \<^verbatim>\<open>getMonthRangeISO\<close> builds the first and the last day of the month at local
  midnight and prints them with \<^verbatim>\<open>toISOString\<close>, which prints UTC.  Where local time
  is ahead of UTC, local midnight is still the evening before in UTC, and both ends of
  the range come out one day early.
\<close>

lemma luanda_year_month:
  "getFullYear (- 60) (noon_15_nov_2026 (- 60)) = 2026" "getMonth (- 60) (noon_15_nov_2026 (- 60)) = 10"
  by (simp_all add: noon_15_nov_2026_def calendar_defs)

lemma luanda_range:
  "getMonthRangeISO (- 60) (noon_15_nov_2026 (- 60)) = (''2026-10-31'', ''2026-11-29'')"
  by (simp add: getMonthRangeISO_unfold luanda_year_month)
     (simp add: calendar_defs format_defs)

text \<open>
  C8 (month filter), at a clock in Luanda (UTC+1) on 15 November 2026: the local month
  is November, the range is 31 October to 29 November, and of an expense on 31 October
  and one on 30 November the summary counts the first and leaves out the second.
\<close>

theorem month_range_east_of_utc:
  "getFullYear (- 60) (noon_15_nov_2026 (- 60)) = 2026
   \<and> getMonth (- 60) (noon_15_nov_2026 (- 60)) = 10
   \<and> getMonthRangeISO (- 60) (noon_15_nov_2026 (- 60)) = (''2026-10-31'', ''2026-11-29'')
   \<and> map tdate (month_transactions (- 60) (noon_15_nov_2026 (- 60)) month_end) = [''2026-10-31'']
   \<and> expense (monthSummary decimal_js (- 60) (noon_15_nov_2026 (- 60)) month_end) = 80"
proof -
  have m: "map tdate (month_transactions (- 60) (noon_15_nov_2026 (- 60)) month_end) = [''2026-10-31'']"
    by (simp add: month_transactions_def luanda_range month_end_def)
  have "month_transactions (- 60) (noon_15_nov_2026 (- 60)) month_end = [hd (transactions month_end)]"
    by (simp add: month_transactions_def luanda_range month_end_def)
  then have e: "expense (monthSummary decimal_js (- 60) (noon_15_nov_2026 (- 60)) month_end) = 80"
    by (simp add: monthSummary_fields Let_def) (simp add: month_end_def fl_decimal_js)
  from luanda_year_month luanda_range m e show ?thesis by simp
qed

text \<open>In Sao Paulo (UTC-3) the same store gives the calendar month.\<close>

lemma month_range_west_of_utc:
  "getMonthRangeISO 180 (noon_15_nov_2026 180) = (''2026-11-01'', ''2026-11-30'')
   \<and> map tdate (month_transactions 180 (noon_15_nov_2026 180) month_end) = [''2026-11-30'']"
  by (simp add: month_transactions_def sao_paulo_range month_end_def)

end
